theory Spec2Isabelle
  imports Main "HOL-Library.Word"
begin

section \<open>Data model of BioPassportRegistry.sol\<close>

text \<open>
  The contract's value types. An \<open>address\<close> is a 160-bit word and a \<open>bytes32\<close> a
  256-bit word. A \<open>uint256\<close> (counters, block timestamps, \<open>validUntil\<close>) is a natural
  number; the only arithmetic the contract does on them is the checked increment of its
  three counters, whose overflow panic (Solidity 0.8) is written out as the error
  \<open>Panic\<close>.
\<close>

type_synonym address = "160 word"
type_synonym bytes32 = "256 word"
type_synonym uint256 = nat

datatype MaterialStatus = ACTIVE | QUARANTINED | REVOKED

datatype CredentialType = IDENTITY | QC_MYCO | USAGE_RIGHTS

datatype error =
    OnlyAdmin
  | NotMaterialOwner
  | NotAuthorizedForStatus
  | MaterialNotFound
  | MaterialAlreadyExists
  | InvalidMaterialType
  | NotApprovedIssuer
  | IssuerRevoked
  | NotAuthorizedForCredentialType
  | CredentialNotFound
  | CredentialAlreadyRevoked
  | NotAuthorizedToRevoke
  | InvalidCommitmentHash
  | InvalidArtifactHash
  | InvalidValidUntil
  | MaterialNotActive
  | PendingTransferExists
  | NoTransfers
  | NoPendingTransfer
  | NotTransferRecipient
  | InvalidHistoryIndex
  | Panic

record Material =
  materialId :: string
  materialType :: string
  metadataHash :: bytes32
  owner :: address
  ownerOrg :: string
  status :: MaterialStatus
  createdAt :: uint256
  updatedAt :: uint256

text \<open>
  The structs \<open>Credential\<close> and \<open>Transfer\<close> have a field \<open>materialId\<close> of their own;
  here they are \<open>cred_materialId\<close> and \<open>xfer_materialId\<close>.
\<close>

record Credential =
  credentialId :: string
  cred_materialId :: string
  credType :: CredentialType
  commitmentHash :: bytes32
  issuer :: address
  issuerId :: string
  issuedAt :: uint256
  validUntil :: uint256
  artifactCid :: string
  artifactHash :: bytes32
  revoked :: bool

record Transfer =
  transferId :: string
  xfer_materialId :: string
  fromAddress :: address
  fromOrg :: string
  toAddress :: address
  toOrg :: string
  shipmentHash :: bytes32
  timestamp :: uint256
  accepted :: bool

record IssuerPermission =
  isApproved :: bool
  canIssueIdentity :: bool
  canIssueQC :: bool
  canIssueUsageRights :: bool

text \<open>
  A history entry of the contract is \<open>keccak256(abi.encodePacked(tag, fields))\<close>. The
  model keeps the packed fields themselves, one constructor for each tag.
\<close>

datatype HistoryEntry =
    H_REGISTERED address uint256
  | H_STATUS_OWNER MaterialStatus bytes32 uint256
  | H_STATUS_AUTHORITY address MaterialStatus bytes32 uint256
  | H_CREDENTIAL_ISSUED string CredentialType uint256
  | H_CREDENTIAL_REVOKED string uint256
  | H_TRANSFER_INITIATED string address uint256
  | H_TRANSFER_ACCEPTED string address uint256

text \<open>
  The storage of the contract. A Solidity mapping is total: a key never written reads as
  the zero value of its type.
\<close>

record Registry =
  admin :: address
  materialCount :: uint256
  credentialCount :: uint256
  transferCount :: uint256
  materials :: "string \<Rightarrow> Material"
  materialExists :: "string \<Rightarrow> bool"
  materialCredentials :: "string \<Rightarrow> string list"
  credentials :: "string \<Rightarrow> Credential"
  materialTransfers :: "string \<Rightarrow> Transfer list"
  issuerPermissions :: "address \<Rightarrow> IssuerPermission"
  issuerRevokedAt :: "address \<Rightarrow> uint256"
  materialHistory :: "string \<Rightarrow> HistoryEntry list"

definition zero_Material :: Material where
  "zero_Material =
     \<lparr>materialId = [], materialType = [], metadataHash = 0, owner = 0, ownerOrg = [],
      status = ACTIVE, createdAt = 0, updatedAt = 0\<rparr>"

definition zero_Credential :: Credential where
  "zero_Credential =
     \<lparr>credentialId = [], cred_materialId = [], credType = IDENTITY, commitmentHash = 0,
      issuer = 0, issuerId = [], issuedAt = 0, validUntil = 0, artifactCid = [],
      artifactHash = 0, revoked = False\<rparr>"

definition zero_IssuerPermission :: IssuerPermission where
  "zero_IssuerPermission =
     \<lparr>isApproved = False, canIssueIdentity = False, canIssueQC = False,
      canIssueUsageRights = False\<rparr>"

definition max_uint256 :: nat where
  "max_uint256 = 2 ^ 256 - 1"

section \<open>Utility: uint2str\<close>

text \<open>
  The first loop of \<open>uint2str\<close> counts the decimal digits, the second one writes them
  into the byte array from its last position down to the first.
\<close>

fun count_digits :: "nat \<Rightarrow> nat \<Rightarrow> nat" where
  "count_digits j len = (if j = 0 then len else count_digits (j div 10) (len + 1))"

fun write_digits :: "nat \<Rightarrow> nat \<Rightarrow> string \<Rightarrow> string" where
  "write_digits i k bstr =
     (if i = 0 then bstr
      else write_digits (i div 10) (k - 1)
             (bstr[k - 1 := char_of (48 + (i - i div 10 * 10))]))"

definition uint2str :: "nat \<Rightarrow> string" where
  "uint2str i =
     (if i = 0 then ''0''
      else let len = count_digits i 0
           in write_digits i len (replicate len (CHR 0x00)))"

section \<open>The constructor and the state-changing functions\<close>

text \<open>
  Every function takes the storage, \<open>msg.sender\<close> and \<open>block.timestamp\<close> before its
  own arguments. A revert is \<open>Inl\<close> of the custom error; the storage it leaves is the
  one before the call, as the EVM rolls the transaction back.
\<close>

definition constructor :: "address \<Rightarrow> Registry" where
  "constructor sender =
     \<lparr>admin = sender, materialCount = 0, credentialCount = 0, transferCount = 0,
      materials = (\<lambda>_. zero_Material),
      materialExists = (\<lambda>_. False),
      materialCredentials = (\<lambda>_. []),
      credentials = (\<lambda>_. zero_Credential),
      materialTransfers = (\<lambda>_. []),
      issuerPermissions = (\<lambda>_. zero_IssuerPermission)
        (sender := \<lparr>isApproved = True, canIssueIdentity = True, canIssueQC = True,
                     canIssueUsageRights = True\<rparr>),
      issuerRevokedAt = (\<lambda>_. 0),
      materialHistory = (\<lambda>_. [])\<rparr>"

definition authorizeIssuer ::
  "Registry \<Rightarrow> address \<Rightarrow> address \<Rightarrow> bool \<Rightarrow> bool \<Rightarrow> bool \<Rightarrow> error + Registry" where
  "authorizeIssuer s sender issuer_a canIdentity canQC canUsageRights =
     (if sender \<noteq> admin s then Inl OnlyAdmin
      else Inr (s\<lparr>issuerPermissions := (issuerPermissions s)
                     (issuer_a := \<lparr>isApproved = True, canIssueIdentity = canIdentity,
                                   canIssueQC = canQC,
                                   canIssueUsageRights = canUsageRights\<rparr>),
                  issuerRevokedAt := (issuerRevokedAt s)(issuer_a := 0)\<rparr>))"

definition revokeIssuer ::
  "Registry \<Rightarrow> address \<Rightarrow> uint256 \<Rightarrow> address \<Rightarrow> error + Registry" where
  "revokeIssuer s sender now issuer_a =
     (if sender \<noteq> admin s then Inl OnlyAdmin
      else Inr (s\<lparr>issuerPermissions := (issuerPermissions s)
                     (issuer_a := (issuerPermissions s issuer_a)\<lparr>isApproved := False\<rparr>),
                  issuerRevokedAt := (issuerRevokedAt s)(issuer_a := now)\<rparr>))"

text \<open>
  \<open>registerMaterial\<close> compares \<open>keccak256(bytes(materialType))\<close> with the hashes of
  the two literals; the model compares the strings. The id is the
  \<open>abi.encodePacked\<close> concatenation of its four parts.
\<close>

definition registerMaterial ::
  "Registry \<Rightarrow> address \<Rightarrow> uint256 \<Rightarrow> string \<Rightarrow> bytes32 \<Rightarrow> string
     \<Rightarrow> error + (Registry \<times> string)" where
  "registerMaterial s sender now mtype mhash org =
     (if mtype \<noteq> ''CELL_LINE'' \<and> mtype \<noteq> ''PLASMID'' then Inl InvalidMaterialType
      else if mhash = 0 then Inl InvalidCommitmentHash
      else if materialCount s = max_uint256 then Inl Panic
      else
        let cnt = materialCount s + 1;
            typePrefix = (if mtype = ''CELL_LINE'' then ''cell_line'' else ''plasmid'');
            mid = ''bio:'' @ typePrefix @ '':'' @ uint2str cnt
        in if materialExists s mid then Inl MaterialAlreadyExists
           else Inr (s\<lparr>materialCount := cnt,
                        materials := (materials s)
                          (mid := \<lparr>materialId = mid, materialType = mtype,
                                   metadataHash = mhash, owner = sender, ownerOrg = org,
                                   status = ACTIVE, createdAt = now, updatedAt = now\<rparr>),
                        materialExists := (materialExists s)(mid := True),
                        materialHistory := (materialHistory s)
                          (mid := materialHistory s mid @ [H_REGISTERED sender now])\<rparr>,
                     mid))"

definition setStatusByOwner ::
  "Registry \<Rightarrow> address \<Rightarrow> uint256 \<Rightarrow> string \<Rightarrow> MaterialStatus \<Rightarrow> bytes32
     \<Rightarrow> error + Registry" where
  "setStatusByOwner s sender now mid newStatus reasonHash =
     (if \<not> materialExists s mid then Inl MaterialNotFound
      else if owner (materials s mid) \<noteq> sender then Inl NotMaterialOwner
      else if newStatus = REVOKED then Inl NotAuthorizedForStatus
      else
        let mat = materials s mid;
            oldStatus = status mat
        in if oldStatus = REVOKED then Inl NotAuthorizedForStatus
           else Inr (s\<lparr>materials := (materials s)
                          (mid := mat\<lparr>status := newStatus, updatedAt := now\<rparr>),
                        materialHistory := (materialHistory s)
                          (mid := materialHistory s mid
                                    @ [H_STATUS_OWNER newStatus reasonHash now])\<rparr>))"

definition setStatusByAuthority ::
  "Registry \<Rightarrow> address \<Rightarrow> uint256 \<Rightarrow> string \<Rightarrow> MaterialStatus \<Rightarrow> bytes32
     \<Rightarrow> error + Registry" where
  "setStatusByAuthority s sender now mid newStatus reasonHash =
     (if \<not> materialExists s mid then Inl MaterialNotFound
      else
        let isAuthorized =
              (sender = admin s \<or>
               (isApproved (issuerPermissions s sender) \<and>
                canIssueQC (issuerPermissions s sender) \<and>
                issuerRevokedAt s sender = 0))
        in if \<not> isAuthorized then Inl NotAuthorizedForStatus
           else
             let mat = materials s mid
             in Inr (s\<lparr>materials := (materials s)
                          (mid := mat\<lparr>status := newStatus, updatedAt := now\<rparr>),
                        materialHistory := (materialHistory s)
                          (mid := materialHistory s mid
                                    @ [H_STATUS_AUTHORITY sender newStatus reasonHash now])\<rparr>))"

text \<open>
  The permission check of \<open>issueCredential\<close>: the capability flag that the
  credential type asks for.
\<close>

definition canIssue :: "IssuerPermission \<Rightarrow> CredentialType \<Rightarrow> bool" where
  "canIssue perm ctype =
     (case ctype of
        IDENTITY \<Rightarrow> canIssueIdentity perm
      | QC_MYCO \<Rightarrow> canIssueQC perm
      | USAGE_RIGHTS \<Rightarrow> canIssueUsageRights perm)"

definition issueCredential ::
  "Registry \<Rightarrow> address \<Rightarrow> uint256 \<Rightarrow> string \<Rightarrow> CredentialType \<Rightarrow> bytes32 \<Rightarrow> uint256
     \<Rightarrow> string \<Rightarrow> bytes32 \<Rightarrow> string \<Rightarrow> error + (Registry \<times> string)" where
  "issueCredential s sender now mid ctype chash vuntil acid ahash iid =
     (if \<not> isApproved (issuerPermissions s sender) then Inl NotApprovedIssuer
      else if issuerRevokedAt s sender \<noteq> 0 then Inl IssuerRevoked
      else if \<not> materialExists s mid then Inl MaterialNotFound
      else if chash = 0 then Inl InvalidCommitmentHash
      else if ahash = 0 then Inl InvalidArtifactHash
      else if vuntil \<noteq> 0 \<and> vuntil \<le> now then Inl InvalidValidUntil
      else
        let perm = issuerPermissions s sender
        in if \<not> canIssue perm ctype then Inl NotAuthorizedForCredentialType
           else if credentialCount s = max_uint256 then Inl Panic
           else
             let cnt = credentialCount s + 1;
                 cid = ''cred:'' @ uint2str cnt
             in Inr (s\<lparr>credentialCount := cnt,
                        credentials := (credentials s)
                          (cid := \<lparr>credentialId = cid, cred_materialId = mid,
                                   credType = ctype, commitmentHash = chash,
                                   issuer = sender, issuerId = iid, issuedAt = now,
                                   validUntil = vuntil, artifactCid = acid,
                                   artifactHash = ahash, revoked = False\<rparr>),
                        materialCredentials := (materialCredentials s)
                          (mid := materialCredentials s mid @ [cid]),
                        materialHistory := (materialHistory s)
                          (mid := materialHistory s mid
                                    @ [H_CREDENTIAL_ISSUED cid ctype now])\<rparr>,
                     cid))"

definition revokeCredential ::
  "Registry \<Rightarrow> address \<Rightarrow> uint256 \<Rightarrow> string \<Rightarrow> error + Registry" where
  "revokeCredential s sender now cid =
     (let cred = credentials s cid
      in if credentialId cred = [] then Inl CredentialNotFound
         else if issuer cred \<noteq> sender \<and> sender \<noteq> admin s then Inl NotAuthorizedToRevoke
         else if revoked cred then Inl CredentialAlreadyRevoked
         else Inr (s\<lparr>credentials := (credentials s)(cid := cred\<lparr>revoked := True\<rparr>),
                      materialHistory := (materialHistory s)
                        (cred_materialId cred :=
                           materialHistory s (cred_materialId cred)
                             @ [H_CREDENTIAL_REVOKED cid now])\<rparr>))"

definition initiateTransfer ::
  "Registry \<Rightarrow> address \<Rightarrow> uint256 \<Rightarrow> string \<Rightarrow> address \<Rightarrow> string \<Rightarrow> bytes32
     \<Rightarrow> error + (Registry \<times> string)" where
  "initiateTransfer s sender now mid to_a to_org shash =
     (if \<not> materialExists s mid then Inl MaterialNotFound
      else if owner (materials s mid) \<noteq> sender then Inl NotMaterialOwner
      else
        let mat = materials s mid;
            transfers = materialTransfers s mid
        in if status mat \<noteq> ACTIVE then Inl MaterialNotActive
           else if length transfers > 0 \<and> \<not> accepted (transfers ! (length transfers - 1))
             then Inl PendingTransferExists
           else if transferCount s = max_uint256 then Inl Panic
           else
             let cnt = transferCount s + 1;
                 tid = ''xfer:'' @ uint2str cnt
             in Inr (s\<lparr>transferCount := cnt,
                        materialTransfers := (materialTransfers s)
                          (mid := transfers
                             @ [\<lparr>transferId = tid, xfer_materialId = mid,
                                 fromAddress = sender, fromOrg = ownerOrg mat,
                                 toAddress = to_a, toOrg = to_org, shipmentHash = shash,
                                 timestamp = now, accepted = False\<rparr>]),
                        materialHistory := (materialHistory s)
                          (mid := materialHistory s mid
                                    @ [H_TRANSFER_INITIATED tid to_a now])\<rparr>,
                     tid))"

definition acceptTransfer ::
  "Registry \<Rightarrow> address \<Rightarrow> uint256 \<Rightarrow> string \<Rightarrow> error + Registry" where
  "acceptTransfer s sender now mid =
     (if \<not> materialExists s mid then Inl MaterialNotFound
      else
        let transfers = materialTransfers s mid
        in if length transfers = 0 then Inl NoTransfers
           else
             let pending = transfers ! (length transfers - 1)
             in if accepted pending then Inl NoPendingTransfer
                else if toAddress pending \<noteq> sender then Inl NotTransferRecipient
                else
                  let mat = materials s mid
                  in Inr (s\<lparr>materialTransfers := (materialTransfers s)
                               (mid := transfers
                                  [length transfers - 1 := pending\<lparr>accepted := True\<rparr>]),
                             materials := (materials s)
                               (mid := mat\<lparr>owner := sender, ownerOrg := toOrg pending,
                                           updatedAt := now\<rparr>),
                             materialHistory := (materialHistory s)
                               (mid := materialHistory s mid
                                         @ [H_TRANSFER_ACCEPTED (transferId pending)
                                              sender now])\<rparr>))"

section \<open>Verification\<close>

text \<open>
  The accumulators of the credential loop of \<open>_verifyMaterialAt\<close>, and one iteration
  of it for the credential id \<open>cid\<close>. The internal function \<open>_verifyMaterialAt\<close> is
  \<open>verifyMaterialAt_internal\<close> here. Its array \<open>tempReasons\<close> has room for ten reasons
  and at most four are written, so the reasons are a list that grows at its end.
\<close>

record QcScan =
  hasIdentity :: bool
  latestQcIssuedAt :: uint256
  latestQcValidUntil :: uint256
  latestQcFromRevokedIssuer :: bool

definition scan_init :: QcScan where
  "scan_init =
     \<lparr>hasIdentity = False, latestQcIssuedAt = 0, latestQcValidUntil = 0,
      latestQcFromRevokedIssuer = False\<rparr>"

definition issuerWasRevokedBeforeIssuance :: "Registry \<Rightarrow> Credential \<Rightarrow> bool" where
  "issuerWasRevokedBeforeIssuance s cred =
     (let issuerRevokeTime = issuerRevokedAt s (issuer cred)
      in issuerRevokeTime \<noteq> 0 \<and> issuedAt cred \<ge> issuerRevokeTime)"

definition scan_step :: "Registry \<Rightarrow> string \<Rightarrow> QcScan \<Rightarrow> QcScan" where
  "scan_step s cid acc =
     (let cred = credentials s cid;
          before = issuerWasRevokedBeforeIssuance s cred;
          acc1 = (if credType cred = IDENTITY \<and> \<not> revoked cred \<and> \<not> before
                  then acc\<lparr>hasIdentity := True\<rparr> else acc)
      in if credType cred = QC_MYCO \<and> \<not> revoked cred
         then (if issuedAt cred > latestQcIssuedAt acc1
               then acc1\<lparr>latestQcIssuedAt := issuedAt cred,
                         latestQcValidUntil := validUntil cred,
                         latestQcFromRevokedIssuer := before\<rparr>
               else acc1)
         else acc1)"

fun scan_credentials :: "Registry \<Rightarrow> string list \<Rightarrow> QcScan \<Rightarrow> QcScan" where
  "scan_credentials s [] acc = acc"
| "scan_credentials s (cid # credIds) acc = scan_credentials s credIds (scan_step s cid acc)"

text \<open>The transfer loop: it stops at the first transfer that is not accepted.\<close>

fun transfer_pending :: "Transfer list \<Rightarrow> bool" where
  "transfer_pending [] = False"
| "transfer_pending (t # ts) = (if \<not> accepted t then True else transfer_pending ts)"

definition verifyMaterialAt_internal :: "Registry \<Rightarrow> string \<Rightarrow> uint256 \<Rightarrow> bool \<times> string list" where
  "verifyMaterialAt_internal s mid atTime =
     (let mat = materials s mid;
          r1 = (if status mat = REVOKED then [''MATERIAL_REVOKED'']
                else if status mat = QUARANTINED then [''MATERIAL_QUARANTINED'']
                else []);
          acc = scan_credentials s (materialCredentials s mid) scan_init;
          r2 = (if \<not> hasIdentity acc then r1 @ [''MISSING_IDENTITY''] else r1);
          hasValidQC = (latestQcIssuedAt acc \<noteq> 0 \<and> latestQcValidUntil acc \<ge> atTime
                        \<and> \<not> latestQcFromRevokedIssuer acc);
          r3 = (if \<not> hasValidQC
                then (if latestQcIssuedAt acc = 0 then r2 @ [''QC_MISSING'']
                      else if latestQcFromRevokedIssuer acc then r2 @ [''QC_ISSUER_REVOKED'']
                      else r2 @ [''QC_EXPIRED''])
                else r2);
          reasons = (if transfer_pending (materialTransfers s mid)
                     then r3 @ [''TRANSFER_PENDING''] else r3)
      in (length reasons = 0, reasons))"

definition verifyMaterialAt ::
  "Registry \<Rightarrow> string \<Rightarrow> uint256 \<Rightarrow> error + (bool \<times> string list)" where
  "verifyMaterialAt s mid atTime =
     (if \<not> materialExists s mid then Inl MaterialNotFound
      else Inr (verifyMaterialAt_internal s mid atTime))"

definition verifyMaterial ::
  "Registry \<Rightarrow> uint256 \<Rightarrow> string \<Rightarrow> error + (bool \<times> string list)" where
  "verifyMaterial s now mid =
     (if \<not> materialExists s mid then Inl MaterialNotFound
      else Inr (verifyMaterialAt_internal s mid now))"

section \<open>Transactions and reachable states\<close>

text \<open>
  A call of one of the nine state-changing functions, with its arguments. \<open>exec\<close> runs
  it for a sender at a block timestamp and keeps the new storage only.
\<close>

datatype call =
    AuthorizeIssuer address bool bool bool
  | RevokeIssuer address
  | RegisterMaterial string bytes32 string
  | SetStatusByOwner string MaterialStatus bytes32
  | SetStatusByAuthority string MaterialStatus bytes32
  | IssueCredential string CredentialType bytes32 uint256 string bytes32 string
  | RevokeCredential string
  | InitiateTransfer string address string bytes32
  | AcceptTransfer string

fun exec :: "address \<Rightarrow> uint256 \<Rightarrow> call \<Rightarrow> Registry \<Rightarrow> error + Registry" where
  "exec sender now (AuthorizeIssuer i ci cq cu) s = authorizeIssuer s sender i ci cq cu"
| "exec sender now (RevokeIssuer i) s = revokeIssuer s sender now i"
| "exec sender now (RegisterMaterial mt mh org) s =
     map_sum id fst (registerMaterial s sender now mt mh org)"
| "exec sender now (SetStatusByOwner mid st rh) s = setStatusByOwner s sender now mid st rh"
| "exec sender now (SetStatusByAuthority mid st rh) s =
     setStatusByAuthority s sender now mid st rh"
| "exec sender now (IssueCredential mid ct ch vu ac ah iid) s =
     map_sum id fst (issueCredential s sender now mid ct ch vu ac ah iid)"
| "exec sender now (RevokeCredential cid) s = revokeCredential s sender now cid"
| "exec sender now (InitiateTransfer mid to_a to_org sh) s =
     map_sum id fst (initiateTransfer s sender now mid to_a to_org sh)"
| "exec sender now (AcceptTransfer mid) s = acceptTransfer s sender now mid"

text \<open>
  The storage after a transaction: the one \<open>exec\<close> returns, or the one before when the
  call reverts.
\<close>

definition transact :: "address \<Rightarrow> uint256 \<Rightarrow> call \<Rightarrow> Registry \<Rightarrow> Registry" where
  "transact sender now c s = (case exec sender now c s of Inl e \<Rightarrow> s | Inr s' \<Rightarrow> s')"

text \<open>
  A sequence of transactions, each with its sender and block timestamp; a reverted one
  leaves the storage as it was.
\<close>

fun run :: "(address \<times> uint256 \<times> call) list \<Rightarrow> Registry \<Rightarrow> Registry" where
  "run [] s = s"
| "run ((sender, now, c) # txs) s = run txs (transact sender now c s)"

text \<open>
  The reachable storages: the one the constructor leaves, and the ones successful calls
  lead to. A block timestamp is the Unix time of its block, which is positive.
\<close>

inductive reachable :: "Registry \<Rightarrow> bool" where
  reachable_init: "reachable (constructor deployer)"
| reachable_step:
    "reachable s \<Longrightarrow> 0 < now \<Longrightarrow> exec sender now c s = Inr s' \<Longrightarrow> reachable s'"

section \<open>Notions used by the properties\<close>

text \<open>The credentials of a material, in the order of their admission.\<close>

definition creds_of :: "Registry \<Rightarrow> string \<Rightarrow> Credential list" where
  "creds_of s mid = map (credentials s) (materialCredentials s mid)"

text \<open>
  The decimal numeral that \<open>uint2str\<close> writes, most significant digit first, its
  length, and the number a string of digits denotes.
\<close>

fun ndigits :: "nat \<Rightarrow> nat" where
  "ndigits i = (if i = 0 then 0 else Suc (ndigits (i div 10)))"

fun decimal :: "nat \<Rightarrow> string" where
  "decimal i = (if i = 0 then [] else decimal (i div 10) @ [char_of (48 + i mod 10)])"

definition digit_value :: "char \<Rightarrow> nat" where
  "digit_value c = of_char c - 48"

definition str2uint :: "string \<Rightarrow> nat" where
  "str2uint cs = foldl (\<lambda>a c. 10 * a + digit_value c) 0 cs"


definition inv_transfers :: "Registry \<Rightarrow> bool" where
  "inv_transfers s \<longleftrightarrow>
     (\<forall>mid. \<forall>t \<in> set (butlast (materialTransfers s mid)). accepted t)"

definition inv_ids :: "Registry \<Rightarrow> bool" where
  "inv_ids s \<longleftrightarrow>
     (\<forall>mid. materialExists s mid \<longrightarrow>
        (\<exists>n. 0 < n \<and> n \<le> materialCount s \<and>
             (mid = ''bio:cell_line:'' @ uint2str n \<or> mid = ''bio:plasmid:'' @ uint2str n)))"

text \<open>
  Concrete storages for the examples. The deployer and admin is address 1; 2 is a
  repository issuer (identity and usage rights), 3 a QC laboratory (QC only), 4 and 5
  are laboratories. \<open>st_setup\<close> has one cell line, registered by 4.
\<close>

definition st_setup :: Registry where
  "st_setup =
     run [(1, 100, AuthorizeIssuer 2 True False True),
          (1, 100, AuthorizeIssuer 3 False True False),
          (4, 110, RegisterMaterial ''CELL_LINE'' 7 ''LabA'')]
       (constructor 1)"


text \<open>\<open>st_noexpiry\<close>: an identity credential and one QC credential with \<open>validUntil = 0\<close>.\<close>

definition st_noexpiry :: Registry where
  "st_noexpiry =
     run [(2, 120, IssueCredential ''bio:cell_line:1'' IDENTITY 5 0 ''s3://id'' 6 ''Repo''),
          (3, 130, IssueCredential ''bio:cell_line:1'' QC_MYCO 5 0 ''s3://qc'' 6 ''QCLab'')]
       st_setup"

text \<open>\<open>st_revoked\<close>: the admin has set the cell line to \<open>REVOKED\<close>.\<close>

definition st_revoked :: Registry where
  "st_revoked =
     run [(1, 120, SetStatusByAuthority ''bio:cell_line:1'' REVOKED 9)] st_setup"

text \<open>\<open>st_issuer_revoked\<close>: the admin has revoked the repository issuer 2.\<close>

definition st_issuer_revoked :: Registry where
  "st_issuer_revoked = run [(1, 120, RevokeIssuer 2)] st_setup"

text \<open>\<open>st_pending\<close>: the owner 4 has initiated a transfer of the cell line to 5.\<close>

definition st_pending :: Registry where
  "st_pending =
     run [(4, 120, InitiateTransfer ''bio:cell_line:1'' 5 ''LabB'' 8)] st_setup"

text \<open>\<open>st_pending_revoked\<close>: as \<open>st_pending\<close>, and then the admin has revoked the cell line.\<close>

definition st_pending_revoked :: Registry where
  "st_pending_revoked =
     run [(1, 130, SetStatusByAuthority ''bio:cell_line:1'' REVOKED 9)] st_pending"

text \<open>\<open>st_authorized\<close>: a fresh registry in which the admin has authorized issuer 2.\<close>

definition st_authorized :: Registry where
  "st_authorized = run [(1, 100, AuthorizeIssuer 2 True False True)] (constructor 1)"

text \<open>\<open>st_registered\<close>: a fresh registry in which 4 has registered a cell line.\<close>

definition st_registered :: Registry where
  "st_registered = run [(4, 110, RegisterMaterial ''CELL_LINE'' 7 ''LabA'')] (constructor 1)"

text \<open>\<open>st_accepted\<close>: as \<open>st_pending\<close>, and then 5 has accepted the transfer.\<close>

definition st_accepted :: Registry where
  "st_accepted = run [(5, 130, AcceptTransfer ''bio:cell_line:1'')] st_pending"

text \<open>
  \<open>st_tie\<close>: as \<open>st_creds\<close>, but both QC credentials are issued in the same block (at
  130); the one admitted first runs until 1000, the one admitted second until 150.
\<close>

definition st_tie :: Registry where
  "st_tie =
     run [(2, 120, IssueCredential ''bio:cell_line:1'' IDENTITY 5 0 ''s3://id'' 6 ''Repo''),
          (3, 130, IssueCredential ''bio:cell_line:1'' QC_MYCO 5 1000 ''s3://qc1'' 6 ''QCLab''),
          (3, 130, IssueCredential ''bio:cell_line:1'' QC_MYCO 5 150 ''s3://qc2'' 6 ''QCLab'')]
       st_setup"


declare count_digits.simps [simp del]
declare write_digits.simps [simp del]
declare ndigits.simps [simp del]
declare decimal.simps [simp del]

section \<open>uint2str is the decimal encoding, and it is injective\<close>

lemma count_digits_ndigits: "count_digits j len = len + ndigits j"
proof (induction j len rule: count_digits.induct)
  case (1 j len)
  show ?case
  proof (cases "j = 0")
    case True
    then show ?thesis by (simp add: count_digits.simps ndigits.simps)
  next
    case False
    then have "count_digits j len = count_digits (j div 10) (len + 1)"
      by (simp add: count_digits.simps)
    also have "\<dots> = len + 1 + ndigits (j div 10)"
      using "1.IH" False by simp
    also have "\<dots> = len + ndigits j"
      using False by (simp add: ndigits.simps [of j])
    finally show ?thesis .
  qed
qed

lemma length_decimal: "length (decimal i) = ndigits i"
proof (induction i rule: decimal.induct)
  case (1 i)
  show ?case
  proof (cases "i = 0")
    case True
    then show ?thesis by (simp add: decimal.simps [of 0] ndigits.simps [of 0])
  next
    case False
    with 1 show ?thesis by (simp add: decimal.simps [of i] ndigits.simps [of i])
  qed
qed

lemma write_digits_decimal:
  "ndigits i \<le> k \<Longrightarrow> k \<le> length bstr \<Longrightarrow>
   write_digits i k bstr = take (k - ndigits i) bstr @ decimal i @ drop k bstr"
proof (induction i k bstr rule: write_digits.induct)
  case (1 i k bstr)
  show ?case
  proof (cases "i = 0")
    case True
    then show ?thesis
      by (simp add: write_digits.simps decimal.simps ndigits.simps)
  next
    case False
    let ?c = "char_of (48 + (i - i div 10 * 10)) :: char"
    let ?b = "bstr[k - 1 := ?c]"
    from False "1.prems" have k: "0 < k" "ndigits (i div 10) \<le> k - 1" "k - 1 \<le> length ?b"
      and nd: "ndigits i = Suc (ndigits (i div 10))"
      by (simp_all add: ndigits.simps [of i])
    have c: "?c = char_of (48 + i mod 10)"
      by (simp add: minus_div_mult_eq_mod)
    have "write_digits i k bstr = write_digits (i div 10) (k - 1) ?b"
      using False by (simp add: write_digits.simps [of i])
    also have "\<dots> = take (k - 1 - ndigits (i div 10)) ?b @ decimal (i div 10) @ drop (k - 1) ?b"
      using "1.IH" [OF False k(2,3)] .
    also have "drop (k - 1) ?b = ?c # drop k bstr"
    proof -
      have lt: "k - 1 < length bstr" using k "1.prems" by simp
      then have "k - 1 < length ?b" by simp
      then have "drop (k - 1) ?b = ?b ! (k - 1) # drop (Suc (k - 1)) ?b"
        by (rule Cons_nth_drop_Suc [symmetric])
      also have "?b ! (k - 1) = ?c" using lt by simp
      also have "drop (Suc (k - 1)) ?b = drop k bstr"
        using k by simp
      finally show ?thesis .
    qed
    also have "take (k - 1 - ndigits (i div 10)) ?b = take (k - ndigits i) bstr"
      using nd by simp
    finally show ?thesis
      using False c by (simp add: decimal.simps [of i])
  qed
qed

lemma uint2str_decimal: "0 < i \<Longrightarrow> uint2str i = decimal i"
  using write_digits_decimal [of i "ndigits i" "replicate (ndigits i) (CHR 0x00)"]
  by (simp add: uint2str_def count_digits_ndigits Let_def)

lemma digit_value_char: "d < 10 \<Longrightarrow> digit_value (char_of (48 + d)) = d"
  by (simp add: digit_value_def)

lemma str2uint_snoc: "str2uint (cs @ [c]) = 10 * str2uint cs + digit_value c"
  by (simp add: str2uint_def)

lemma str2uint_decimal: "str2uint (decimal i) = i"
proof (induction i rule: decimal.induct)
  case (1 i)
  show ?case
  proof (cases "i = 0")
    case True
    then show ?thesis by (simp add: decimal.simps str2uint_def)
  next
    case False
    with 1 show ?thesis
      by (simp add: decimal.simps [of i] str2uint_snoc digit_value_char)
  qed
qed

lemma str2uint_uint2str: "str2uint (uint2str i) = i"
proof (cases "i = 0")
  case True
  then show ?thesis by (simp add: uint2str_def str2uint_def digit_value_def)
next
  case False
  then show ?thesis by (simp add: uint2str_decimal str2uint_decimal)
qed

lemma uint2str_inj: "uint2str a = uint2str b \<Longrightarrow> a = b"
  by (metis str2uint_uint2str)

lemma uint2str_1: "uint2str (Suc 0) = ''1''"
  by code_simp

lemma uint2str_2: "uint2str (Suc (Suc 0)) = ''2''"
  by code_simp

lemma uint2str_3: "uint2str (Suc (Suc (Suc 0))) = ''3''"
  by code_simp

section \<open>Sequences of transactions and the example storages\<close>

lemmas op_defs = authorizeIssuer_def revokeIssuer_def registerMaterial_def setStatusByOwner_def
  setStatusByAuthority_def issueCredential_def revokeCredential_def initiateTransfer_def
  acceptTransfer_def

lemmas eval_defs = op_defs canIssue_def transact_def max_uint256_def Let_def constructor_def
  uint2str_1 uint2str_2 uint2str_3

lemmas verify_defs = verifyMaterialAt_def verifyMaterialAt_internal_def scan_step_def
  scan_init_def issuerWasRevokedBeforeIssuance_def

lemma reachable_transact: "reachable s \<Longrightarrow> 0 < now \<Longrightarrow> reachable (transact sender now c s)"
  by (cases "exec sender now c s") (auto simp: transact_def intro: reachable_step)

lemma reachable_run:
  "reachable s \<Longrightarrow> list_all (\<lambda>(sender, now, c). 0 < now) txs \<Longrightarrow> reachable (run txs s)"
proof (induction txs arbitrary: s)
  case Nil
  then show ?case by simp
next
  case (Cons tx txs)
  obtain sender now c where tx: "tx = (sender, now, c)" by (cases tx)
  with Cons.prems have "reachable (transact sender now c s)"
    by (simp add: reachable_transact)
  moreover from Cons.prems have "list_all (\<lambda>(sender, now, c). 0 < now) txs" by simp
  ultimately show ?case using Cons.IH tx by simp
qed

lemma reachable_st_setup: "reachable st_setup"
  unfolding st_setup_def by (rule reachable_run [OF reachable_init]) simp


lemma reachable_st_noexpiry: "reachable st_noexpiry"
  unfolding st_noexpiry_def by (rule reachable_run [OF reachable_st_setup]) simp

lemma reachable_st_revoked: "reachable st_revoked"
  unfolding st_revoked_def by (rule reachable_run [OF reachable_st_setup]) simp

lemma reachable_st_issuer_revoked: "reachable st_issuer_revoked"
  unfolding st_issuer_revoked_def by (rule reachable_run [OF reachable_st_setup]) simp

lemma reachable_st_pending: "reachable st_pending"
  unfolding st_pending_def by (rule reachable_run [OF reachable_st_setup]) simp

lemma reachable_st_pending_revoked: "reachable st_pending_revoked"
  unfolding st_pending_revoked_def by (rule reachable_run [OF reachable_st_pending]) simp

lemma st_setup_exists: "materialExists st_setup ''bio:cell_line:1''"
  by (simp add: st_setup_def eval_defs)

lemma st_setup_qc_lab:
  "isApproved (issuerPermissions st_setup 3) \<and> issuerRevokedAt st_setup 3 = 0 \<and>
   \<not> canIssue (issuerPermissions st_setup 3) IDENTITY"
  by (simp add: st_setup_def eval_defs)


lemma st_pending_facts:
  "materialTransfers st_pending ''bio:cell_line:1'' \<noteq> [] \<and>
   \<not> accepted (last (materialTransfers st_pending ''bio:cell_line:1'')) \<and>
   materialExists st_pending ''bio:cell_line:1'' \<and>
   owner (materials st_pending ''bio:cell_line:1'') = 4 \<and>
   status (materials st_pending ''bio:cell_line:1'') = ACTIVE"
  by (simp add: st_pending_def st_setup_def eval_defs)

lemma st_pending_revoked_facts:
  "materialExists st_pending_revoked ''bio:cell_line:1'' \<and>
   materialTransfers st_pending_revoked ''bio:cell_line:1'' \<noteq> [] \<and>
   \<not> accepted (last (materialTransfers st_pending_revoked ''bio:cell_line:1'')) \<and>
   toAddress (last (materialTransfers st_pending_revoked ''bio:cell_line:1'')) = 5 \<and>
   status (materials st_pending_revoked ''bio:cell_line:1'') = REVOKED \<and>
   owner (materials st_pending_revoked ''bio:cell_line:1'') = 4"
  by (simp add: st_pending_revoked_def st_pending_def st_setup_def eval_defs)

lemma acceptTransfer_st_pending:
  "acceptTransfer st_pending 5 130 ''bio:cell_line:1'' = Inr st_accepted"
  by (simp add: st_accepted_def st_pending_def st_setup_def eval_defs)

lemma exec_st_registered:
  "exec 4 110 (RegisterMaterial ''CELL_LINE'' 7 ''LabA'') (constructor 1) = Inr st_registered"
  by (simp add: st_registered_def eval_defs)

lemma exec_not_admin:
  "exec 5 100 (AuthorizeIssuer 2 True True True) (constructor 1) = Inl OnlyAdmin"
  by (simp add: eval_defs)


lemma reachable_st_tie: "reachable st_tie"
  unfolding st_tie_def by (rule reachable_run [OF reachable_st_setup]) simp


lemma registerMaterial_st_registered:
  "registerMaterial (constructor 1) 4 110 ''CELL_LINE'' 7 ''LabA''
     = Inr (st_registered, ''bio:cell_line:1'')"
  by (simp add: st_registered_def eval_defs)

section \<open>Invariants of the reachable storages\<close>




lemma inv_transfers_init: "inv_transfers (constructor d)"
  by (simp add: inv_transfers_def constructor_def)

lemma butlast_update_last: "xs \<noteq> [] \<Longrightarrow> butlast (xs[length xs - Suc 0 := y]) = butlast xs"
  by (induction xs rule: rev_induct) simp_all

lemma all_accepted:
  assumes "\<forall>x \<in> set (butlast ts). accepted x"
    and "ts = [] \<or> accepted (ts ! (length ts - 1))"
    and "t \<in> set ts"
  shows "accepted t"
proof (cases ts rule: rev_cases)
  case Nil
  with assms show ?thesis by simp
next
  case (snoc ys y)
  with assms show ?thesis by auto
qed

lemma initiateTransfer_Inr:
  assumes "initiateTransfer s sender now mid to_a to_org sh = Inr (s', tid)"
  shows "materialTransfers s mid = [] \<or>
           accepted (materialTransfers s mid ! (length (materialTransfers s mid) - 1))"
    and "\<exists>t. materialTransfers s' = (materialTransfers s)(mid := materialTransfers s mid @ [t])"
  using assms by (auto simp: initiateTransfer_def Let_def split: if_splits)

lemma acceptTransfer_Inr:
  assumes "acceptTransfer s sender now mid = Inr s'"
  shows "materialTransfers s mid \<noteq> []"
    and "materialTransfers s' = (materialTransfers s)
           (mid := (materialTransfers s mid)
              [length (materialTransfers s mid) - 1 :=
                 (materialTransfers s mid ! (length (materialTransfers s mid) - 1))
                   \<lparr>accepted := True\<rparr>])"
  using assms by (auto simp: acceptTransfer_def Let_def split: if_splits)

lemma inv_transfers_step:
  assumes "inv_transfers s" "exec sender now c s = Inr s'"
  shows "inv_transfers s'"
proof (cases c)
  case (InitiateTransfer mid to_a to_org sh)
  with assms obtain tid where ok: "initiateTransfer s sender now mid to_a to_org sh = Inr (s', tid)"
    by (cases "initiateTransfer s sender now mid to_a to_org sh") auto
  from initiateTransfer_Inr(2) [OF ok] obtain t where
    s': "materialTransfers s' = (materialTransfers s)(mid := materialTransfers s mid @ [t])" ..
  have "\<forall>x \<in> set (materialTransfers s mid). accepted x"
    using all_accepted [OF _ initiateTransfer_Inr(1) [OF ok]] assms(1)
    by (auto simp: inv_transfers_def)
  with assms(1) show ?thesis
    by (auto simp: inv_transfers_def s')
next
  case (AcceptTransfer mid)
  with assms have ok: "acceptTransfer s sender now mid = Inr s'" by simp
  show ?thesis
    using assms(1) acceptTransfer_Inr(1) [OF ok]
    by (auto simp: inv_transfers_def acceptTransfer_Inr(2) [OF ok] butlast_update_last)
qed (use assms in \<open>auto simp: inv_transfers_def op_defs Let_def split: if_splits\<close>)

lemma reachable_inv_transfers: "reachable s \<Longrightarrow> inv_transfers s"
  by (induction rule: reachable.induct) (auto intro: inv_transfers_init inv_transfers_step)

lemma inv_ids_init: "inv_ids (constructor d)"
  by (simp add: inv_ids_def constructor_def)

lemma registerMaterial_Inr:
  assumes "registerMaterial s sender now mt mh org = Inr (s', mid)"
  shows "mid = ''bio:cell_line:'' @ uint2str (materialCount s + 1) \<or>
         mid = ''bio:plasmid:'' @ uint2str (materialCount s + 1)"
    and "materialCount s' = materialCount s + 1"
    and "materialExists s' = (materialExists s)(mid := True)"
    and "\<not> materialExists s mid"
  using assms by (auto simp: registerMaterial_def Let_def split: if_splits)

lemma inv_ids_step:
  assumes "inv_ids s" "exec sender now c s = Inr s'"
  shows "inv_ids s'"
proof (cases c)
  case (RegisterMaterial mt mh org)
  with assms obtain mid where ok: "registerMaterial s sender now mt mh org = Inr (s', mid)"
    by (cases "registerMaterial s sender now mt mh org") auto
  note r = registerMaterial_Inr [OF ok]
  show ?thesis
    unfolding inv_ids_def
  proof (intro allI impI)
    fix m
    assume ex: "materialExists s' m"
    show "\<exists>n. 0 < n \<and> n \<le> materialCount s' \<and>
             (m = ''bio:cell_line:'' @ uint2str n \<or> m = ''bio:plasmid:'' @ uint2str n)"
    proof (cases "m = mid")
      case True
      with r(1,2) show ?thesis
        by (intro exI [of _ "materialCount s + 1"]) auto
    next
      case False
      with ex r(3) have "materialExists s m" by simp
      with assms(1) obtain n where "0 < n" "n \<le> materialCount s"
        "m = ''bio:cell_line:'' @ uint2str n \<or> m = ''bio:plasmid:'' @ uint2str n"
        unfolding inv_ids_def by blast
      with r(2) show ?thesis
        by (intro exI [of _ n]) auto
    qed
  qed
qed (use assms in \<open>auto simp: inv_ids_def op_defs Let_def split: if_splits\<close>)

lemma reachable_inv_ids: "reachable s \<Longrightarrow> inv_ids s"
  by (induction rule: reachable.induct) (auto intro: inv_ids_init inv_ids_step)

lemma fresh_material_id:
  assumes "inv_ids s"
  shows "\<not> materialExists s (''bio:cell_line:'' @ uint2str (materialCount s + 1))"
    and "\<not> materialExists s (''bio:plasmid:'' @ uint2str (materialCount s + 1))"
proof -
  have "n \<noteq> materialCount s + 1" if "n \<le> materialCount s" for n
    using that by simp
  then have neq: "uint2str n \<noteq> uint2str (materialCount s + 1)" if "n \<le> materialCount s" for n
    using that uint2str_inj by blast
  show "\<not> materialExists s (''bio:cell_line:'' @ uint2str (materialCount s + 1))"
  proof
    assume "materialExists s (''bio:cell_line:'' @ uint2str (materialCount s + 1))"
    with assms obtain n where "n \<le> materialCount s"
      "''bio:cell_line:'' @ uint2str (materialCount s + 1) = ''bio:cell_line:'' @ uint2str n \<or>
       ''bio:cell_line:'' @ uint2str (materialCount s + 1) = ''bio:plasmid:'' @ uint2str n"
      unfolding inv_ids_def by blast
    with neq show False by auto
  qed
  show "\<not> materialExists s (''bio:plasmid:'' @ uint2str (materialCount s + 1))"
  proof
    assume "materialExists s (''bio:plasmid:'' @ uint2str (materialCount s + 1))"
    with assms obtain n where "n \<le> materialCount s"
      "''bio:plasmid:'' @ uint2str (materialCount s + 1) = ''bio:cell_line:'' @ uint2str n \<or>
       ''bio:plasmid:'' @ uint2str (materialCount s + 1) = ''bio:plasmid:'' @ uint2str n"
      unfolding inv_ids_def by blast
    with neq show False by auto
  qed
qed

lemma registerMaterial_not_exists:
  assumes "inv_ids s"
  shows "registerMaterial s sender now mt mh org \<noteq> Inl MaterialAlreadyExists"
  using fresh_material_id [OF assms]
  by (auto simp: registerMaterial_def Let_def split: if_splits)

text \<open>
  An approved issuer has no revocation timestamp in a reachable storage, so
  issueCredential never reverts with IssuerRevoked there; after revokeIssuer the issuer's
  calls revert with NotApprovedIssuer.
\<close>

lemma reachable_approved_not_revoked:
  "reachable s \<Longrightarrow> isApproved (issuerPermissions s a) \<Longrightarrow> issuerRevokedAt s a = 0"
proof (induction arbitrary: a rule: reachable.induct)
  case (reachable_init deployer)
  then show ?case by (simp add: constructor_def)
next
  case (reachable_step s now sender c s')
  show ?case
  proof (cases c)
    case (RegisterMaterial mt mh org)
    with reachable_step show ?thesis
      by (cases "registerMaterial s sender now mt mh org")
        (auto simp: registerMaterial_def Let_def split: if_splits)
  next
    case (IssueCredential m ct ch vu ac ah iid)
    with reachable_step show ?thesis
      by (cases "issueCredential s sender now m ct ch vu ac ah iid")
        (auto simp: issueCredential_def Let_def split: if_splits)
  next
    case (InitiateTransfer m to_a to_org sh)
    with reachable_step show ?thesis
      by (cases "initiateTransfer s sender now m to_a to_org sh")
        (auto simp: initiateTransfer_def Let_def split: if_splits)
  qed (use reachable_step in \<open>auto simp: op_defs Let_def split: if_splits\<close>)
qed

lemma issueCredential_never_IssuerRevoked:
  "reachable s \<Longrightarrow>
   issueCredential s sender now mid ctype chash vuntil acid ahash iid \<noteq> Inl IssuerRevoked"
  using reachable_approved_not_revoked [of s sender]
  by (auto simp: issueCredential_def Let_def split: if_splits)

lemma issueCredential_after_revokeIssuer:
  assumes "revokeIssuer s sender now i = Inr s'"
  shows "issueCredential s' i now' mid ctype chash vuntil acid ahash iid = Inl NotApprovedIssuer"
  using assms by (auto simp: revokeIssuer_def issueCredential_def split: if_splits)

section \<open>Effects of the calls\<close>

lemma registerMaterial_history:
  "registerMaterial s sender now mt mh org = Inr (s', mid) \<Longrightarrow>
   materialHistory s' = (materialHistory s)(mid := materialHistory s mid @ [H_REGISTERED sender now])"
  by (auto simp: registerMaterial_def Let_def split: if_splits)

lemma setStatusByOwner_history:
  "setStatusByOwner s sender now mid st rh = Inr s' \<Longrightarrow>
   materialHistory s' =
     (materialHistory s)(mid := materialHistory s mid @ [H_STATUS_OWNER st rh now])"
  by (auto simp: setStatusByOwner_def Let_def split: if_splits)

lemma setStatusByAuthority_history:
  "setStatusByAuthority s sender now mid st rh = Inr s' \<Longrightarrow>
   materialHistory s' =
     (materialHistory s)(mid := materialHistory s mid @ [H_STATUS_AUTHORITY sender st rh now])"
  by (auto simp: setStatusByAuthority_def Let_def split: if_splits)

lemma issueCredential_history:
  "issueCredential s sender now mid ct ch vu ac ah iid = Inr (s', cid) \<Longrightarrow>
   materialHistory s' =
     (materialHistory s)(mid := materialHistory s mid @ [H_CREDENTIAL_ISSUED cid ct now])"
  by (auto simp: issueCredential_def Let_def split: if_splits)

lemma revokeCredential_history:
  "revokeCredential s sender now cid = Inr s' \<Longrightarrow>
   materialHistory s' =
     (materialHistory s)(cred_materialId (credentials s cid) :=
        materialHistory s (cred_materialId (credentials s cid)) @ [H_CREDENTIAL_REVOKED cid now])"
  by (auto simp: revokeCredential_def Let_def split: if_splits)

lemma initiateTransfer_history:
  "initiateTransfer s sender now mid to_a to_org sh = Inr (s', tid) \<Longrightarrow>
   materialHistory s' =
     (materialHistory s)(mid := materialHistory s mid @ [H_TRANSFER_INITIATED tid to_a now])"
  by (auto simp: initiateTransfer_def Let_def split: if_splits)

lemma acceptTransfer_history_entry:
  "acceptTransfer s sender now mid = Inr s' \<Longrightarrow>
   materialHistory s' =
     (materialHistory s)(mid := materialHistory s mid
        @ [H_TRANSFER_ACCEPTED (transferId (last (materialTransfers s mid))) sender now])"
  by (auto simp: acceptTransfer_def Let_def last_conv_nth split: if_splits)

lemma filter_pending_le_1:
  assumes "\<forall>t \<in> set (butlast ts). accepted t"
  shows "length (filter (\<lambda>t. \<not> accepted t) ts) \<le> 1"
proof (cases ts rule: rev_cases)
  case Nil
  then show ?thesis by simp
next
  case (snoc ys y)
  with assms have "filter (\<lambda>t. \<not> accepted t) ys = []" by (simp add: filter_empty_conv)
  with snoc show ?thesis by simp
qed

lemma initiateTransfer_pending:
  assumes "materialTransfers s mid \<noteq> []" "\<not> accepted (last (materialTransfers s mid))"
  shows "initiateTransfer s sender now mid to_a to_org sh =
           Inl (if \<not> materialExists s mid then MaterialNotFound
                else if owner (materials s mid) \<noteq> sender then NotMaterialOwner
                else if status (materials s mid) \<noteq> ACTIVE then MaterialNotActive
                else PendingTransferExists)"
  using assms by (simp add: initiateTransfer_def Let_def last_conv_nth)

lemma acceptTransfer_transfers:
  assumes "acceptTransfer s sender now mid = Inr s'"
  shows "materialTransfers s' = (materialTransfers s)
           (mid := butlast (materialTransfers s mid)
                     @ [(last (materialTransfers s mid))\<lparr>accepted := True\<rparr>])"
proof -
  let ?ts = "materialTransfers s mid"
  from acceptTransfer_Inr [OF assms] have ne: "?ts \<noteq> []"
    and s': "materialTransfers s' = (materialTransfers s)
           (mid := ?ts[length ?ts - 1 := (?ts ! (length ?ts - 1))\<lparr>accepted := True\<rparr>])"
    by simp_all
  have "?ts[length ?ts - 1 := x] = butlast ?ts @ [x]" for x
    using ne by (cases ?ts rule: rev_cases) simp_all
  with s' ne show ?thesis by (simp add: last_conv_nth)
qed

text \<open>
  Every call but setStatusByAuthority keeps an existing material that is REVOKED in that
  status; setStatusByAuthority, called by the admin, writes whatever status it is given.
\<close>

lemma revoked_kept_by_other_calls:
  assumes "exec sender now c s = Inr s'"
    and "materialExists s mid" "status (materials s mid) = REVOKED"
    and "\<forall>m st rh. c \<noteq> SetStatusByAuthority m st rh"
  shows "status (materials s' mid) = REVOKED"
proof (cases c)
  case (RegisterMaterial mt mh org)
  with assms show ?thesis
    by (cases "registerMaterial s sender now mt mh org")
      (auto simp: registerMaterial_def Let_def split: if_splits)
next
  case (IssueCredential m ct ch vu ac ah iid)
  with assms show ?thesis
    by (cases "issueCredential s sender now m ct ch vu ac ah iid")
      (auto simp: issueCredential_def Let_def split: if_splits)
next
  case (InitiateTransfer m to_a to_org sh)
  with assms show ?thesis
    by (cases "initiateTransfer s sender now m to_a to_org sh")
      (auto simp: initiateTransfer_def Let_def split: if_splits)
next
  case (SetStatusByAuthority m st rh)
  with assms(4) show ?thesis by simp
qed (use assms in \<open>auto simp: op_defs Let_def split: if_splits\<close>)

lemma setStatusByAuthority_admin:
  assumes "materialExists s mid"
  shows "\<exists>s'. setStatusByAuthority s (admin s) now mid newStatus reasonHash = Inr s' \<and>
           status (materials s' mid) = newStatus"
  using assms by (simp add: setStatusByAuthority_def Let_def)

section \<open>The credential loop of the verification\<close>

lemma scan_step_hasIdentity:
  "hasIdentity (scan_step s cid acc) \<longleftrightarrow>
     hasIdentity acc \<or>
     (credType (credentials s cid) = IDENTITY \<and> \<not> revoked (credentials s cid) \<and>
      \<not> issuerWasRevokedBeforeIssuance s (credentials s cid))"
  by (auto simp: scan_step_def Let_def)

lemma scan_credentials_hasIdentity:
  "hasIdentity (scan_credentials s credIds acc) \<longleftrightarrow>
     hasIdentity acc \<or>
     (\<exists>c \<in> set (map (credentials s) credIds).
        credType c = IDENTITY \<and> \<not> revoked c \<and> \<not> issuerWasRevokedBeforeIssuance s c)"
  by (induction credIds arbitrary: acc) (auto simp: scan_step_hasIdentity)








text \<open>
  MISSING_IDENTITY is reported exactly when no identity credential of the material is
  non-revoked and from an issuer not revoked at or before its issuedAt.
\<close>

lemma verify_missing_identity:
  "''MISSING_IDENTITY'' \<in> set (snd (verifyMaterialAt_internal s mid atTime)) \<longleftrightarrow>
     \<not> (\<exists>c \<in> set (creds_of s mid). credType c = IDENTITY \<and> \<not> revoked c \<and>
           \<not> (issuerRevokedAt s (issuer c) \<noteq> 0 \<and> issuerRevokedAt s (issuer c) \<le> issuedAt c))"
  using scan_credentials_hasIdentity [of s "materialCredentials s mid" scan_init]
  by (auto simp: verifyMaterialAt_internal_def Let_def creds_of_def scan_init_def
      issuerWasRevokedBeforeIssuance_def)

section \<open>Properties of the registry\<close>

subsection \<open>C1: the latest QC credential decides\<close>




subsection \<open>C2: leaving REVOKED\<close>

text \<open>
  C2. At the storage st_revoked the cell line is REVOKED, and the admin's call of
  setStatusByAuthority with ACTIVE succeeds and leaves it ACTIVE.
\<close>

theorem C2_authority_leaves_revoked:
  "status (materials st_revoked ''bio:cell_line:1'') = REVOKED \<and>
   map_sum id (\<lambda>s'. status (materials s' ''bio:cell_line:1''))
     (setStatusByAuthority st_revoked 1 130 ''bio:cell_line:1'' ACTIVE 9) = Inr ACTIVE"
  by (simp add: st_revoked_def st_setup_def eval_defs)

subsection \<open>C3: a QC credential without expiry\<close>

text \<open>
  C3. At the storage st_noexpiry the only QC credential of the cell line was admitted
  with validUntil = 0, its issuer is not revoked, and the verification at time 131
  fails with the single reason QC_EXPIRED.
\<close>

theorem C3_no_expiry_reported_expired:
  "map validUntil (creds_of st_noexpiry ''bio:cell_line:1'') = [0, 0] \<and>
   map credType (creds_of st_noexpiry ''bio:cell_line:1'') = [IDENTITY, QC_MYCO] \<and>
   verifyMaterialAt st_noexpiry ''bio:cell_line:1'' 131 = Inr (False, [''QC_EXPIRED''])"
  by (simp add: st_noexpiry_def st_setup_def creds_of_def eval_defs verify_defs)

subsection \<open>C4: issuing after the issuer's revocation\<close>

text \<open>
  C4. At the storage st_issuer_revoked the admin has revoked issuer 2 at time 120, and
  a later issueCredential of issuer 2, for a credential type it was authorized for,
  reverts with NotApprovedIssuer.
\<close>

theorem C4_revoked_issuer_error:
  "issuerRevokedAt st_issuer_revoked 2 = 120 \<and>
   issueCredential st_issuer_revoked 2 130 ''bio:cell_line:1'' IDENTITY 5 1000 ''s3://test'' 6
     ''Repository'' = Inl NotApprovedIssuer"
  by (simp add: st_issuer_revoked_def st_setup_def eval_defs)

subsection \<open>C5: at most one pending transfer\<close>

text \<open>
  C5 (as amended). In every reachable storage, for every material, at most one of its
  transfers is not accepted, and every transfer but the most recent one is accepted.
  While the latest transfer is not accepted initiateTransfer reverts: with
  PendingTransferExists when the sender owns the material and the material is ACTIVE,
  and with the error of the earlier check otherwise (MaterialNotFound, NotMaterialOwner,
  MaterialNotActive). A successful acceptTransfer changes the transfers of the material
  only in marking the latest one accepted.
\<close>

theorem C5_single_pending_transfer:
  assumes "reachable s"
  shows "length (filter (\<lambda>t. \<not> accepted t) (materialTransfers s mid)) \<le> 1 \<and>
         (\<forall>t \<in> set (butlast (materialTransfers s mid)). accepted t) \<and>
         (materialTransfers s mid \<noteq> [] \<and> \<not> accepted (last (materialTransfers s mid)) \<longrightarrow>
            initiateTransfer s sender now mid to_a to_org sh =
              Inl (if \<not> materialExists s mid then MaterialNotFound
                   else if owner (materials s mid) \<noteq> sender then NotMaterialOwner
                   else if status (materials s mid) \<noteq> ACTIVE then MaterialNotActive
                   else PendingTransferExists)) \<and>
         (acceptTransfer s sender' now' mid = Inr s' \<longrightarrow>
            materialTransfers s' = (materialTransfers s)
              (mid := butlast (materialTransfers s mid)
                        @ [(last (materialTransfers s mid))\<lparr>accepted := True\<rparr>]))"
proof -
  from assms have "inv_transfers s" by (rule reachable_inv_transfers)
  then have all: "\<forall>t \<in> set (butlast (materialTransfers s mid)). accepted t"
    by (simp add: inv_transfers_def)
  from all show ?thesis
    using filter_pending_le_1 [OF all] initiateTransfer_pending acceptTransfer_transfers
    by blast
qed

theorem C5_single_pending_transfer_witness:
  "length (filter (\<lambda>t. \<not> accepted t) (materialTransfers st_pending ''bio:cell_line:1'')) \<le> 1 \<and>
   initiateTransfer st_pending 4 130 ''bio:cell_line:1'' 5 ''LabB'' 8 = Inl PendingTransferExists \<and>
   materialTransfers st_accepted =
     (materialTransfers st_pending)
       (''bio:cell_line:1'' :=
          butlast (materialTransfers st_pending ''bio:cell_line:1'')
            @ [(last (materialTransfers st_pending ''bio:cell_line:1''))\<lparr>accepted := True\<rparr>])"
  using C5_single_pending_transfer [OF reachable_st_pending, of "''bio:cell_line:1''" 4 130 5
      "''LabB''" 8 5 130 st_accepted]
    st_pending_facts acceptTransfer_st_pending
  by simp

theorem C5_not_owner_counterexample:
  "materialTransfers st_pending ''bio:cell_line:1'' \<noteq> [] \<and>
   \<not> accepted (last (materialTransfers st_pending ''bio:cell_line:1'')) \<and>
   initiateTransfer st_pending 5 130 ''bio:cell_line:1'' 4 ''LabA'' 8 = Inl NotMaterialOwner"
  by (simp add: st_pending_def st_setup_def eval_defs)

subsection \<open>C6: the owner cannot revoke\<close>

text \<open>
  C6 (as amended). For every sender, material id and reason hash,
  setStatusByOwner with the new status REVOKED reverts and the storage stays as it was.
  The error is MaterialNotFound when the material does not exist, NotMaterialOwner when
  the sender is not its owner, and NotAuthorizedForStatus when the sender is its owner.
\<close>

theorem C6_owner_cannot_revoke:
  "setStatusByOwner s sender now mid REVOKED reasonHash =
     Inl (if \<not> materialExists s mid then MaterialNotFound
          else if owner (materials s mid) \<noteq> sender then NotMaterialOwner
          else NotAuthorizedForStatus) \<and>
   transact sender now (SetStatusByOwner mid REVOKED reasonHash) s = s"
  by (simp add: setStatusByOwner_def transact_def)

theorem C6_not_owner_counterexample:
  "materialExists st_setup ''bio:cell_line:1'' \<and>
   setStatusByOwner st_setup 5 120 ''bio:cell_line:1'' REVOKED 9 = Inl NotMaterialOwner"
  by (simp add: st_setup_def eval_defs)

subsection \<open>C7: history entries and reverts\<close>

text \<open>
  C7 (as amended). A successful call appends exactly one entry, to the history of the
  material the call concerns, and leaves every other history as it was: registerMaterial
  to the history of the material whose id it returns, issueCredential, setStatusByOwner,
  setStatusByAuthority, initiateTransfer and acceptTransfer to the history of the
  material given as argument, revokeCredential to the history of the material of the
  credential. A successful authorizeIssuer or revokeIssuer appends no history entry. A
  call that reverts leaves the whole storage as it was.
\<close>

theorem C7_history_effect:
  "(exec sender now c s = Inr s' \<longrightarrow>
      (case c of
         AuthorizeIssuer i ci cq cu \<Rightarrow> materialHistory s' = materialHistory s
       | RevokeIssuer i \<Rightarrow> materialHistory s' = materialHistory s
       | RegisterMaterial mt mh org \<Rightarrow>
           (\<exists>mid. registerMaterial s sender now mt mh org = Inr (s', mid) \<and>
              materialHistory s' =
                (materialHistory s)(mid := materialHistory s mid @ [H_REGISTERED sender now]))
       | SetStatusByOwner mid st rh \<Rightarrow>
           materialHistory s' =
             (materialHistory s)(mid := materialHistory s mid @ [H_STATUS_OWNER st rh now])
       | SetStatusByAuthority mid st rh \<Rightarrow>
           materialHistory s' =
             (materialHistory s)
               (mid := materialHistory s mid @ [H_STATUS_AUTHORITY sender st rh now])
       | IssueCredential mid ct ch vu ac ah iid \<Rightarrow>
           (\<exists>cid. issueCredential s sender now mid ct ch vu ac ah iid = Inr (s', cid) \<and>
              materialHistory s' =
                (materialHistory s)
                  (mid := materialHistory s mid @ [H_CREDENTIAL_ISSUED cid ct now]))
       | RevokeCredential cid \<Rightarrow>
           materialHistory s' =
             (materialHistory s)
               (cred_materialId (credentials s cid) :=
                  materialHistory s (cred_materialId (credentials s cid))
                    @ [H_CREDENTIAL_REVOKED cid now])
       | InitiateTransfer mid to_a to_org sh \<Rightarrow>
           (\<exists>tid. initiateTransfer s sender now mid to_a to_org sh = Inr (s', tid) \<and>
              materialHistory s' =
                (materialHistory s)
                  (mid := materialHistory s mid @ [H_TRANSFER_INITIATED tid to_a now]))
       | AcceptTransfer mid \<Rightarrow>
           materialHistory s' =
             (materialHistory s)
               (mid := materialHistory s mid
                  @ [H_TRANSFER_ACCEPTED (transferId (last (materialTransfers s mid)))
                       sender now]))) \<and>
   (exec sender now c s = Inl err \<longrightarrow> transact sender now c s = s)"
proof (intro conjI impI)
  assume "exec sender now c s = Inl err"
  then show "transact sender now c s = s" by (simp add: transact_def)
next
  assume ok: "exec sender now c s = Inr s'"
  show "case c of
         AuthorizeIssuer i ci cq cu \<Rightarrow> materialHistory s' = materialHistory s
       | RevokeIssuer i \<Rightarrow> materialHistory s' = materialHistory s
       | RegisterMaterial mt mh org \<Rightarrow>
           (\<exists>mid. registerMaterial s sender now mt mh org = Inr (s', mid) \<and>
              materialHistory s' =
                (materialHistory s)(mid := materialHistory s mid @ [H_REGISTERED sender now]))
       | SetStatusByOwner mid st rh \<Rightarrow>
           materialHistory s' =
             (materialHistory s)(mid := materialHistory s mid @ [H_STATUS_OWNER st rh now])
       | SetStatusByAuthority mid st rh \<Rightarrow>
           materialHistory s' =
             (materialHistory s)
               (mid := materialHistory s mid @ [H_STATUS_AUTHORITY sender st rh now])
       | IssueCredential mid ct ch vu ac ah iid \<Rightarrow>
           (\<exists>cid. issueCredential s sender now mid ct ch vu ac ah iid = Inr (s', cid) \<and>
              materialHistory s' =
                (materialHistory s)
                  (mid := materialHistory s mid @ [H_CREDENTIAL_ISSUED cid ct now]))
       | RevokeCredential cid \<Rightarrow>
           materialHistory s' =
             (materialHistory s)
               (cred_materialId (credentials s cid) :=
                  materialHistory s (cred_materialId (credentials s cid))
                    @ [H_CREDENTIAL_REVOKED cid now])
       | InitiateTransfer mid to_a to_org sh \<Rightarrow>
           (\<exists>tid. initiateTransfer s sender now mid to_a to_org sh = Inr (s', tid) \<and>
              materialHistory s' =
                (materialHistory s)
                  (mid := materialHistory s mid @ [H_TRANSFER_INITIATED tid to_a now]))
       | AcceptTransfer mid \<Rightarrow>
           materialHistory s' =
             (materialHistory s)
               (mid := materialHistory s mid
                  @ [H_TRANSFER_ACCEPTED (transferId (last (materialTransfers s mid)))
                       sender now])"
  proof (cases c)
    case (AuthorizeIssuer i ci cq cu)
    with ok show ?thesis by (auto simp: authorizeIssuer_def split: if_splits)
  next
    case (RevokeIssuer i)
    with ok show ?thesis by (auto simp: revokeIssuer_def split: if_splits)
  next
    case (RegisterMaterial mt mh org)
    with ok obtain mid where r: "registerMaterial s sender now mt mh org = Inr (s', mid)"
      by (cases "registerMaterial s sender now mt mh org") auto
    from r registerMaterial_history [OF r] RegisterMaterial show ?thesis by simp
  next
    case (SetStatusByOwner mid st rh)
    with ok have "setStatusByOwner s sender now mid st rh = Inr s'" by simp
    from setStatusByOwner_history [OF this] SetStatusByOwner show ?thesis by simp
  next
    case (SetStatusByAuthority mid st rh)
    with ok have "setStatusByAuthority s sender now mid st rh = Inr s'" by simp
    from setStatusByAuthority_history [OF this] SetStatusByAuthority show ?thesis by simp
  next
    case (IssueCredential mid ct ch vu ac ah iid)
    with ok obtain cid where
      r: "issueCredential s sender now mid ct ch vu ac ah iid = Inr (s', cid)"
      by (cases "issueCredential s sender now mid ct ch vu ac ah iid") auto
    from r issueCredential_history [OF r] IssueCredential show ?thesis by simp
  next
    case (RevokeCredential cid)
    with ok have "revokeCredential s sender now cid = Inr s'" by simp
    from revokeCredential_history [OF this] RevokeCredential show ?thesis by simp
  next
    case (InitiateTransfer mid to_a to_org sh)
    with ok obtain tid where
      r: "initiateTransfer s sender now mid to_a to_org sh = Inr (s', tid)"
      by (cases "initiateTransfer s sender now mid to_a to_org sh") auto
    from r initiateTransfer_history [OF r] InitiateTransfer show ?thesis by simp
  next
    case (AcceptTransfer mid)
    with ok have "acceptTransfer s sender now mid = Inr s'" by simp
    from acceptTransfer_history_entry [OF this] AcceptTransfer show ?thesis by simp
  qed
qed

theorem C7_history_effect_witness:
  "materialHistory st_registered =
     (materialHistory (constructor 1))
       (''bio:cell_line:1'' :=
          materialHistory (constructor 1) ''bio:cell_line:1'' @ [H_REGISTERED 4 110]) \<and>
   materialHistory st_accepted =
     (materialHistory st_pending)
       (''bio:cell_line:1'' :=
          materialHistory st_pending ''bio:cell_line:1''
            @ [H_TRANSFER_ACCEPTED
                 (transferId (last (materialTransfers st_pending ''bio:cell_line:1''))) 5 130]) \<and>
   transact 5 100 (AuthorizeIssuer 2 True True True) (constructor 1) = constructor 1"
  using C7_history_effect [of 4 110 "RegisterMaterial ''CELL_LINE'' 7 ''LabA''" "constructor 1"
      st_registered]
    C7_history_effect [of 5 130 "AcceptTransfer ''bio:cell_line:1''" st_pending st_accepted]
    C7_history_effect [of 5 100 "AuthorizeIssuer 2 True True True" "constructor 1" _ OnlyAdmin]
    exec_st_registered registerMaterial_st_registered acceptTransfer_st_pending exec_not_admin
  by auto

theorem C7_authorize_no_history_counterexample:
  "exec 1 100 (AuthorizeIssuer 2 True False True) (constructor 1) = Inr st_authorized \<and>
   materialHistory st_authorized = materialHistory (constructor 1)"
  by (simp add: st_authorized_def eval_defs)

subsection \<open>C8: the order of the checks of issueCredential\<close>

text \<open>
  C8 (as amended). A call of issueCredential by an approved issuer that is not revoked
  and lacks the capability for the requested credential type always reverts. The error
  is NotAuthorizedForCredentialType when the material exists, both hashes are non-zero
  and validUntil is 0 or later than the block timestamp; otherwise it is the error of
  the first of these checks that fails: MaterialNotFound, InvalidCommitmentHash,
  InvalidArtifactHash, InvalidValidUntil.
\<close>

theorem C8_capability_error_order:
  assumes "isApproved (issuerPermissions s sender)"
    and "issuerRevokedAt s sender = 0"
    and "\<not> canIssue (issuerPermissions s sender) ctype"
  shows "issueCredential s sender now mid ctype chash vuntil acid ahash iid =
     Inl (if \<not> materialExists s mid then MaterialNotFound
          else if chash = 0 then InvalidCommitmentHash
          else if ahash = 0 then InvalidArtifactHash
          else if vuntil \<noteq> 0 \<and> vuntil \<le> now then InvalidValidUntil
          else NotAuthorizedForCredentialType)"
  using assms by (simp add: issueCredential_def Let_def)

theorem C8_capability_error_order_witness:
  "issueCredential st_setup 3 120 ''bio:cell_line:1'' IDENTITY 5 1000 ''s3://test'' 6 ''QCLab''
     = Inl NotAuthorizedForCredentialType"
  using C8_capability_error_order [of st_setup 3 IDENTITY 120 "''bio:cell_line:1''" 5 1000
      "''s3://test''" 6 "''QCLab''"] st_setup_qc_lab st_setup_exists
  by simp

theorem C8_material_absent_counterexample:
  "isApproved (issuerPermissions st_setup 3) \<and> issuerRevokedAt st_setup 3 = 0 \<and>
   \<not> canIssue (issuerPermissions st_setup 3) IDENTITY \<and>
   issueCredential st_setup 3 120 ''bio:plasmid:9'' IDENTITY 5 1000 ''s3://test'' 6 ''QCLab''
     = Inl MaterialNotFound"
  by (simp add: st_setup_def eval_defs)

subsection \<open>C9: accepting a transfer\<close>

text \<open>
  C9. acceptTransfer does not look at the status of the material: when the material
  exists and its latest transfer is not accepted, the call by that transfer's recipient
  succeeds, marks the transfer accepted and makes the recipient the owner, and the
  status stays what it was, ACTIVE, QUARANTINED or REVOKED.
\<close>

theorem C9_accept_ignores_status:
  assumes "materialExists s mid"
    and "materialTransfers s mid \<noteq> []"
    and "\<not> accepted (last (materialTransfers s mid))"
  shows "\<exists>s'. acceptTransfer s (toAddress (last (materialTransfers s mid))) now mid = Inr s' \<and>
           owner (materials s' mid) = toAddress (last (materialTransfers s mid)) \<and>
           ownerOrg (materials s' mid) = toOrg (last (materialTransfers s mid)) \<and>
           status (materials s' mid) = status (materials s mid) \<and>
           accepted (last (materialTransfers s' mid))"
  using assms by (simp add: acceptTransfer_def Let_def last_conv_nth)

theorem C9_accept_ignores_status_witness:
  "\<exists>s'. acceptTransfer st_pending_revoked 5 140 ''bio:cell_line:1'' = Inr s' \<and>
         owner (materials s' ''bio:cell_line:1'') = 5 \<and>
         status (materials s' ''bio:cell_line:1'') = REVOKED"
  using C9_accept_ignores_status [of st_pending_revoked "''bio:cell_line:1''" 140]
    st_pending_revoked_facts
  by auto

subsection \<open>C10: minted material ids are fresh\<close>

text \<open>
  C10. uint2str is injective, and in every reachable storage registerMaterial never
  reverts with MaterialAlreadyExists: a registration that succeeds returns an id that no
  material had before and that a material has afterwards.
\<close>

theorem C10_minted_ids_fresh:
  assumes "reachable s"
  shows "inj uint2str \<and>
         registerMaterial s sender now mt mh org \<noteq> Inl MaterialAlreadyExists \<and>
         (case registerMaterial s sender now mt mh org of
            Inl e \<Rightarrow> True
          | Inr (s', mid) \<Rightarrow> \<not> materialExists s mid \<and> materialExists s' mid)"
proof -
  have ids: "inv_ids s" using assms by (rule reachable_inv_ids)
  have inj: "inj uint2str" by (rule injI) (rule uint2str_inj)
  show ?thesis
  proof (cases "registerMaterial s sender now mt mh org")
    case (Inl e)
    with inj registerMaterial_not_exists [OF ids, of sender now mt mh org] show ?thesis
      by simp
  next
    case (Inr r)
    obtain s' mid where r: "r = (s', mid)" by (cases r)
    with inj Inr registerMaterial_Inr(3,4) [of s sender now mt mh org s' mid] show ?thesis
      by simp
  qed
qed

theorem C10_minted_ids_fresh_witness:
  "registerMaterial st_setup 5 120 ''PLASMID'' 9 ''LabB'' \<noteq> Inl MaterialAlreadyExists \<and>
   map_sum id snd (registerMaterial st_setup 5 120 ''PLASMID'' 9 ''LabB'') = Inr ''bio:plasmid:2'' \<and>
   \<not> materialExists st_setup ''bio:plasmid:2''"
proof -
  have "map_sum id snd (registerMaterial st_setup 5 120 ''PLASMID'' 9 ''LabB'')
          = Inr ''bio:plasmid:2''"
    by (simp add: st_setup_def eval_defs)
  then obtain s' where
    "registerMaterial st_setup 5 120 ''PLASMID'' 9 ''LabB'' = Inr (s', ''bio:plasmid:2'')"
    by (cases "registerMaterial st_setup 5 120 ''PLASMID'' 9 ''LabB''") auto
  with C10_minted_ids_fresh [OF reachable_st_setup, of 5 120 "''PLASMID''" 9 "''LabB''"]
  show ?thesis
    by simp
qed

end
